theory Spec2Isabelle
  imports Complex_Main "HOL-Library.Log_Nat" "HOL-Library.AList"
begin

section \<open>Python values used by the conferencing system\<close>

text \<open>
  Byte strings (\<^verbatim>\<open>bytes\<close>) are lists of 8-bit characters.  A Python \<^verbatim>\<open>str\<close> is
  represented by its UTF-8 encoding, which determines it; \<^verbatim>\<open>.encode('utf-8')\<close> is then the
  identity and \<^verbatim>\<open>.decode('utf-8')\<close> is a validity check.  Python integers are \<open>int\<close>.
\<close>

type_synonym bytes = string
type_synonym str = string

subsection \<open>Byte strings: membership, partition, split, slices\<close>

definition colon :: char where
  "colon = CHR '':''"

definition newline :: char where
  "newline = CHR 0x0A"

text \<open>
  \<^verbatim>\<open>before, _, after = b.partition(sep)\<close> for a one-byte separator that occurs in \<open>b\<close>
  (the callers test \<^verbatim>\<open>sep in b\<close> first).
\<close>

definition before :: "char \<Rightarrow> bytes \<Rightarrow> bytes" where
  "before sep b = takeWhile (\<lambda>c. c \<noteq> sep) b"

definition after :: "char \<Rightarrow> bytes \<Rightarrow> bytes" where
  "after sep b = drop 1 (dropWhile (\<lambda>c. c \<noteq> sep) b)"


text \<open>
  \<^verbatim>\<open>b[:n]\<close> and \<^verbatim>\<open>b[n:]\<close> for an integer \<open>n\<close>: a negative index counts from the
  end, and indices are clipped to the length.
\<close>

definition slice_index :: "'a list \<Rightarrow> int \<Rightarrow> nat" where
  "slice_index b n = (if n < 0 then nat (int (length b) + n) else min (nat n) (length b))"

definition slice_to :: "'a list \<Rightarrow> int \<Rightarrow> 'a list" where
  "slice_to b n = take (slice_index b n) b"

definition slice_from :: "'a list \<Rightarrow> int \<Rightarrow> 'a list" where
  "slice_from b n = drop (slice_index b n) b"

subsection \<open>The UTF-8 codec\<close>

abbreviation byte :: "char \<Rightarrow> nat" where
  "byte c \<equiv> of_char c"

definition cont :: "char \<Rightarrow> bool" where
  "cont c = (0x80 \<le> byte c \<and> byte c \<le> 0xBF)"

text \<open>
  CPython's decoder at the head of a byte string: whether a well-formed sequence starts
  there, and how many bytes it (or, for an error, the rejected prefix) covers.  An
  error covers the bytes that were a valid start of a sequence, at least one.
\<close>

fun utf8_seq :: "bytes \<Rightarrow> bool \<times> nat" where
  "utf8_seq [] = (True, 0)"
| "utf8_seq (b1 # bs) =
     (let c = byte b1 in
      if c < 0x80 then (True, 1)
      else if c < 0xC2 then (False, 1)
      else if c < 0xE0 then
        (case bs of
           [] \<Rightarrow> (False, 1)
         | b2 # _ \<Rightarrow> if cont b2 then (True, 2) else (False, 1))
      else if c < 0xF0 then
        (case bs of
           [] \<Rightarrow> (False, 1)
         | b2 # bs2 \<Rightarrow>
             if \<not> cont b2 \<or> (c = 0xE0 \<and> byte b2 < 0xA0) \<or> (c = 0xED \<and> 0xA0 \<le> byte b2)
             then (False, 1)
             else (case bs2 of
                     [] \<Rightarrow> (False, 2)
                   | b3 # _ \<Rightarrow> if cont b3 then (True, 3) else (False, 2)))
      else if c < 0xF5 then
        (case bs of
           [] \<Rightarrow> (False, 1)
         | b2 # bs2 \<Rightarrow>
             if \<not> cont b2 \<or> (c = 0xF0 \<and> byte b2 < 0x90) \<or> (c = 0xF4 \<and> 0x90 \<le> byte b2)
             then (False, 1)
             else (case bs2 of
                     [] \<Rightarrow> (False, 2)
                   | b3 # bs3 \<Rightarrow>
                       if \<not> cont b3 then (False, 2)
                       else (case bs3 of
                               [] \<Rightarrow> (False, 3)
                             | b4 # _ \<Rightarrow> if cont b4 then (True, 4) else (False, 3))))
      else (False, 1))"

lemma utf8_seq_pos: "(ok, n) = utf8_seq (b # bs) \<Longrightarrow> Suc (length bs) - n < Suc (length bs)"
  by (auto simp: Let_def split: list.splits if_splits)


text \<open>\<^verbatim>\<open>b.decode('utf-8')\<close>: \<open>None\<close> stands for UnicodeDecodeError.\<close>

function decode :: "bytes \<Rightarrow> str option" where
  "decode [] = Some []"
| "decode (b # bs) =
     (case utf8_seq (b # bs) of
        (ok, n) \<Rightarrow>
          if ok then map_option (\<lambda>s. take n (b # bs) @ s) (decode (drop n (b # bs)))
          else None)"
  by pat_completeness auto
termination
  by (relation "measure length") (auto simp del: utf8_seq.simps intro: utf8_seq_pos)

subsection \<open>The built-in int on text\<close>

text \<open>
  \<^verbatim>\<open>int(s)\<close> for a text of ASCII characters: optional surrounding white space, an
  optional sign, then decimal digits, where single underscores may separate digits.
  \<open>None\<close> stands for ValueError.  Characters outside ASCII give \<open>None\<close>: that is
  what \<^verbatim>\<open>int\<close> does on \<^verbatim>\<open>bytes\<close>; the digits and spaces beyond ASCII that it accepts
  on \<^verbatim>\<open>str\<close>, and its limit on the number of digits, are not part of the model.
\<close>

definition py_isspace :: "char \<Rightarrow> bool" where
  "py_isspace c = (c \<in> set [CHR 0x20, CHR 0x09, CHR 0x0A, CHR 0x0B, CHR 0x0C, CHR 0x0D])"

definition is_digit :: "char \<Rightarrow> bool" where
  "is_digit c = (48 \<le> byte c \<and> byte c \<le> 57)"

fun parse_digits :: "string \<Rightarrow> bool \<Rightarrow> int \<Rightarrow> int option" where
  "parse_digits [] after_digit acc = (if after_digit then Some acc else None)"
| "parse_digits (c # cs) after_digit acc =
     (if is_digit c then parse_digits cs True (acc * 10 + (int (byte c) - 48))
      else if c = CHR ''_'' \<and> after_digit then parse_digits cs False acc
      else None)"

definition py_strip :: "string \<Rightarrow> string" where
  "py_strip s = rev (dropWhile py_isspace (rev (dropWhile py_isspace s)))"

definition py_int :: "string \<Rightarrow> int option" where
  "py_int s =
     (case py_strip s of
        [] \<Rightarrow> None
      | c # cs \<Rightarrow>
          if c = CHR ''-'' then map_option uminus (parse_digits cs False 0)
          else if c = CHR ''+'' then parse_digits cs False 0
          else parse_digits (c # cs) False 0)"

subsection \<open>Binary64 arithmetic of the loss percentage\<close>

text \<open>
  \<^verbatim>\<open>lost / total\<close> and \<^verbatim>\<open>* 100\<close> are IEEE 754 binary64 operations, each the exact
  result rounded to nearest, ties to even.  A double is represented by the rational it
  denotes.  \<open>round_double\<close> covers the normal range; it is \<open>None\<close> where the exact value
  overflows or lies in the subnormal range, which the model does not describe.
\<close>

definition pow2 :: "int \<Rightarrow> rat" where
  "pow2 e = (if 0 \<le> e then 2 ^ nat e else 1 / 2 ^ nat (- e))"

definition round_half_even :: "rat \<Rightarrow> int" where
  "round_half_even m =
     (let f = \<lfloor>m\<rfloor>; d = m - of_int f
      in if d < 1 / 2 then f else if 1 / 2 < d then f + 1 else if even f then f else f + 1)"

definition binary_exponent :: "rat \<Rightarrow> int" where
  "binary_exponent x =
     (let (p, q) = quotient_of x; e0 = bitlen p - bitlen q
      in if pow2 e0 \<le> x then e0 else e0 - 1)"

definition round_double :: "rat \<Rightarrow> rat option" where
  "round_double x =
     (if x = 0 then Some 0
      else let a = \<bar>x\<bar>; e = binary_exponent a;
               m = round_half_even (a / pow2 (e - 52))
           in if e < - 1022 \<or> 1023 < e \<or> (e = 1023 \<and> m = 2 ^ 53) then None
              else Some ((if x < 0 then - 1 else 1) * of_int m * pow2 (e - 52)))"

text \<open>\<^verbatim>\<open>a / b\<close> on integers (true division), for \<open>b \<noteq> 0\<close>.\<close>

definition py_truediv :: "int \<Rightarrow> int \<Rightarrow> rat option" where
  "py_truediv a b = round_double (of_int a / of_int b)"

definition float_mul :: "rat \<Rightarrow> rat \<Rightarrow> rat option" where
  "float_mul x y = round_double (x * y)"

text \<open>\<^verbatim>\<open>int(x)\<close> on a float truncates towards zero.\<close>

definition int_of_float :: "rat \<Rightarrow> int" where
  "int_of_float x = (if 0 \<le> x then \<lfloor>x\<rfloor> else \<lceil>x\<rceil>)"

section \<open>Client-side quality estimator (MediaReceiver.run, video branch)\<close>

text \<open>
  \<^verbatim>\<open>self.metrics\<close> maps a username to its statistics.  \<open>arrivals\<close> is the
  \<^verbatim>\<open>deque(maxlen=JITTER_BUFFER_SIZE)\<close> of arrival times; the jitter computed from it
  (a NumPy standard deviation) is not part of the model.
\<close>

definition JITTER_BUFFER_SIZE :: nat where
  "JITTER_BUFFER_SIZE = 20"

record peer_stats =
  last_seq :: int
  lost :: int
  total :: int
  arrivals :: "rat list"

definition deque_append :: "nat \<Rightarrow> 'a list \<Rightarrow> 'a \<Rightarrow> 'a list" where
  "deque_append maxlen xs x = (let ys = xs @ [x] in drop (length ys - maxlen) ys)"

definition new_peer_stats :: "int \<Rightarrow> peer_stats" where
  "new_peer_stats seq_num = \<lparr>last_seq = seq_num - 1, lost = 0, total = 0, arrivals = []\<rparr>"

text \<open>Lines 53-54: the entry is created on the first packet of a username.\<close>

definition ensure_peer :: "(str \<rightharpoonup> peer_stats) \<Rightarrow> str \<Rightarrow> int \<Rightarrow> (str \<rightharpoonup> peer_stats)" where
  "ensure_peer metrics username seq_num =
     (if metrics username = None then metrics(username \<mapsto> new_peer_stats seq_num) else metrics)"

text \<open>Lines 56-59 and 61: the update of one peer's statistics.\<close>

definition update_stats :: "peer_stats \<Rightarrow> int \<Rightarrow> rat \<Rightarrow> peer_stats" where
  "update_stats stats seq_num arrival_time =
     (let total' = total stats + 1;
          lost_count = seq_num - last_seq stats - 1;
          lost' = (if 0 < lost_count then lost stats + lost_count else lost stats)
      in \<lparr>last_seq = seq_num, lost = lost', total = total',
          arrivals = deque_append JITTER_BUFFER_SIZE (arrivals stats) arrival_time\<rparr>)"

text \<open>Line 60 and the \<^verbatim>\<open>int(loss_pct)\<close> of line 65.\<close>

definition loss_pct :: "peer_stats \<Rightarrow> rat option" where
  "loss_pct stats =
     (if 0 < total stats
      then (case py_truediv (lost stats) (total stats) of
              None \<Rightarrow> None
            | Some q \<Rightarrow> float_mul q 100)
      else Some 0)"

definition reported_loss :: "peer_stats \<Rightarrow> int option" where
  "reported_loss stats = map_option int_of_float (loss_pct stats)"

text \<open>
  One inbound video packet of \<open>username\<close> with sequence number \<open>seq_num\<close>: the new
  metrics and the loss percentage emitted with \<^verbatim>\<open>metrics_updated\<close>.
\<close>

definition video_packet ::
  "(str \<rightharpoonup> peer_stats) \<Rightarrow> str \<Rightarrow> int \<Rightarrow> rat \<Rightarrow> (str \<rightharpoonup> peer_stats) \<times> int option" where
  "video_packet metrics username seq_num arrival_time =
     (let metrics1 = ensure_peer metrics username seq_num
      in case metrics1 username of
           None \<Rightarrow> (metrics1, None)
         | Some stats \<Rightarrow>
             (let stats' = update_stats stats seq_num arrival_time
              in (metrics1(username \<mapsto> stats'), reported_loss stats')))"

fun video_packets ::
  "(str \<rightharpoonup> peer_stats) \<Rightarrow> (str \<times> int \<times> rat) list \<Rightarrow> (str \<rightharpoonup> peer_stats) \<times> int option list" where
  "video_packets metrics [] = (metrics, [])"
| "video_packets metrics ((username, seq_num, t) # ps) =
     (case video_packet metrics username seq_num t of
        (metrics', loss) \<Rightarrow>
          (case video_packets metrics' ps of (metrics'', out) \<Rightarrow> (metrics'', loss # out)))"

section \<open>The wire protocol demultiplexer\<close>

text \<open>
  One pass of the inner \<^verbatim>\<open>while True\<close> loop looks at the buffer and either hands a
  complete frame to the dispatcher and keeps the bytes after it (\<open>Emit\<close>), leaves the
  loop with the buffer as it is (\<open>Suspend\<close>), leaves it with the buffer emptied
  (\<open>Discard\<close>), or raises an exception that ends the receive loop (\<open>Crash\<close>, on the
  client only).
\<close>

datatype frame =
    TextCommand str str
  | BinaryFrame bytes
  | ScreenFrame str bytes

datatype parsed = Emit frame bytes | Suspend | Discard | Crash

subsection \<open>Server: ConferenceServer.handle_client, lines 116-147\<close>



lemma length_after: "sep \<in> set b \<Longrightarrow> length (after sep b) < length b"
proof -
  assume "sep \<in> set b"
  then have "dropWhile (\<lambda>c. c \<noteq> sep) b \<noteq> []" by simp
  then have "length (drop 1 (dropWhile (\<lambda>c. c \<noteq> sep) b)) < length (dropWhile (\<lambda>c. c \<noteq> sep) b)"
    by simp
  also have "\<dots> \<le> length b" by (rule length_dropWhile_le)
  finally show ?thesis by (simp add: after_def)
qed





subsection \<open>Client: TCPReceiver, lines 104-160\<close>

datatype signal =
    MessageReceived str
  | ScreenShareStarted str
  | ScreenShareStopped str
  | ScreenFrameReceived str bytes
  | FileIncoming str str int
  | FileDataReceived bytes
  | UserLeft str

definition client_text_commands :: "str list" where
  "client_text_commands =
     [''SYSTEM'', ''CHAT'', ''PONG'', ''SCRN_START'', ''SCRN_STOP'', ''FILE_INCOMING'', ''USER_LEFT'']"

definition client_parse :: "bytes \<Rightarrow> parsed" where
  "client_parse buffer =
     (if colon \<notin> set buffer then Suspend
      else
        let header = before colon buffer;
            rest = after colon buffer
        in case decode header of
             None \<Rightarrow> Discard
           | Some command \<Rightarrow>
               if command \<in> set client_text_commands then
                 (if newline \<in> set rest
                  then (case decode (before newline rest) of
                          None \<Rightarrow> Crash
                        | Some payload \<Rightarrow> Emit (TextCommand command payload) (after newline rest))
                  else Suspend)
               else if command = ''SCRN'' then
                 (if colon \<in> set rest then
                    (let username_bytes = before colon rest;
                         data_rest = after colon rest
                     in case decode username_bytes of
                          None \<Rightarrow> Crash
                        | Some username \<Rightarrow>
                            if colon \<in> set data_rest then
                              (let size_str = before colon data_rest;
                                   frame_data = after colon data_rest
                               in case py_int size_str of
                                    None \<Rightarrow> Discard
                                  | Some frame_size \<Rightarrow>
                                      if frame_size \<le> int (length frame_data)
                                      then Emit (ScreenFrame username (slice_to frame_data frame_size))
                                                (slice_from frame_data frame_size)
                                      else Suspend)
                            else Suspend)
                  else Suspend)
               else Discard)"

lemma client_parse_shorter:
  "client_parse buffer = Emit f buffer' \<Longrightarrow> length buffer' < length buffer"
  by (auto simp: client_parse_def Let_def slice_from_def split: if_splits option.splits
      dest!: length_after
      intro: less_trans le_less_trans [OF diff_le_self])

text \<open>\<^verbatim>\<open>s.split(sep, maxsplit)\<close>.\<close>

fun py_splitn :: "char \<Rightarrow> nat \<Rightarrow> string \<Rightarrow> string list" where
  "py_splitn sep 0 s = [s]"
| "py_splitn sep (Suc n) s =
     (if sep \<in> set s then before sep s # py_splitn sep n (after sep s) else [s])"

text \<open>
  \<open>process_command\<close>: the signal emitted and whether \<^verbatim>\<open>is_receiving_file\<close> is set;
  \<open>None\<close> is the ValueError of a FILE_INCOMING payload without three fields or
  without an integer size.
\<close>

definition process_command :: "str \<Rightarrow> str \<Rightarrow> (signal \<times> bool) option" where
  "process_command command payload =
     (if command = ''SCRN_START'' then Some (ScreenShareStarted payload, False)
      else if command = ''SCRN_STOP'' then Some (ScreenShareStopped payload, False)
      else if command = ''FILE_INCOMING'' then
        (case py_splitn colon 2 payload of
           [from_user, filename, filesize] \<Rightarrow>
             (case py_int filesize of
                None \<Rightarrow> None
              | Some n \<Rightarrow> Some (FileIncoming from_user filename n, True))
         | _ \<Rightarrow> None)
      else if command = ''USER_LEFT'' then Some (UserLeft payload, False)
      else Some (MessageReceived (command @ '':'' @ payload), False))"

text \<open>
  The state of \<^verbatim>\<open>TCPReceiver.run\<close>: the local \<^verbatim>\<open>buffer\<close>, the flag
  \<^verbatim>\<open>is_receiving_file\<close> and the signals emitted so far (the traffic counter
  \<^verbatim>\<open>bytes_received\<close> is left out).
\<close>

record tcp_receiver =
  buffer :: bytes
  is_receiving_file :: bool
  signals :: "signal list"

definition emit_signal :: "signal \<Rightarrow> tcp_receiver \<Rightarrow> tcp_receiver" where
  "emit_signal s r = r\<lparr>signals := signals r @ [s]\<rparr>"

text \<open>The inner loop; the flag returned tells whether an exception left the loop.\<close>

function client_drain :: "tcp_receiver \<Rightarrow> bool \<times> tcp_receiver" where
  "client_drain r =
     (case client_parse (buffer r) of
        Suspend \<Rightarrow> (False, r)
      | Discard \<Rightarrow> (False, r\<lparr>buffer := []\<rparr>)
      | Crash \<Rightarrow> (True, r)
      | Emit f buffer' \<Rightarrow>
          (case f of
             TextCommand command payload \<Rightarrow>
               (case process_command command payload of
                  None \<Rightarrow> (True, r\<lparr>buffer := buffer'\<rparr>)
                | Some (s, file_mode) \<Rightarrow>
                    client_drain
                      ((emit_signal s (r\<lparr>buffer := buffer'\<rparr>))
                         \<lparr>is_receiving_file := is_receiving_file r \<or> file_mode\<rparr>))
           | ScreenFrame username content \<Rightarrow>
               client_drain (emit_signal (ScreenFrameReceived username content) (r\<lparr>buffer := buffer'\<rparr>))
           | BinaryFrame content \<Rightarrow> (True, r)))"
  by pat_completeness auto
termination
  by (relation "measure (\<lambda>r. length (buffer r))")
     (auto simp: client_parse_shorter emit_signal_def)

declare client_drain.simps [simp del]

text \<open>
  The receive loop over what happens to the receiver: a chunk returned by
  \<^verbatim>\<open>recv(4096)\<close> (the empty chunk is the closed connection), or a call of
  \<^verbatim>\<open>stop_file_receive_mode\<close> by the file consumer.  The loop is modelled while
  \<^verbatim>\<open>running\<close> holds.
\<close>

datatype tcp_event = Recv bytes | StopFileReceiveMode

datatype loop_status = Receiving | Exited

fun run :: "tcp_receiver \<Rightarrow> tcp_event list \<Rightarrow> loop_status \<times> tcp_receiver" where
  "run r [] = (Receiving, r)"
| "run r (StopFileReceiveMode # evs) = run (r\<lparr>is_receiving_file := False\<rparr>) evs"
| "run r (Recv data # evs) =
     (if data = [] then (Exited, r)
      else if is_receiving_file r then run (emit_signal (FileDataReceived data) r) evs
      else (case client_drain (r\<lparr>buffer := buffer r @ data\<rparr>) of
              (True, r') \<Rightarrow> (Exited, r')
            | (False, r') \<Rightarrow> run r' evs))"

definition initial_receiver :: tcp_receiver where
  "initial_receiver = \<lparr>buffer = [], is_receiving_file = False, signals = []\<rparr>"

subsection \<open>Streams on which the parser neither discards nor reads a negative length\<close>









subsection \<open>The recovery the specification describes\<close>


section \<open>The relay server: connection registry (ConferenceServer)\<close>

text \<open>
  A TCP connection is identified by a number; \<^verbatim>\<open>self.clients\<close> and
  \<^verbatim>\<open>self.username_to_conn\<close> are dictionaries, kept as association lists in insertion
  order.  The environment is part of the state: \<open>unreachable\<close> holds the peers on
  which \<^verbatim>\<open>sendall\<close> raises, \<open>closed\<close> the sockets the server has closed, \<open>sent\<close> the
  messages written so far.  \<open>lock_held\<close> is \<^verbatim>\<open>self.lock\<close>, a \<^verbatim>\<open>threading.Lock\<close>:
  it is not reentrant, so a thread that acquires it while it is held waits, and waits
  for ever when the holder is the thread itself.
\<close>

type_synonym conn = nat
type_synonym udp_addr = "str \<times> int"

datatype event = Log str | Participants "str list"

text \<open>
  How a call ends: it returns, raises, or never returns because it waits for the lock
  (\<open>Blocked\<close>); the state given with \<open>Blocked\<close> is the one in which it waits.
\<close>

datatype outcome = Returned | Raised | Blocked

record server =
  clients :: "(conn \<times> (str \<times> udp_addr)) list"
  username_to_conn :: "(str \<times> conn) list"
  lock_held :: bool
  running :: bool
  unreachable :: "conn set"
  closed :: "conn set"
  sent :: "(conn \<times> bytes) list"
  udp_unreachable :: "udp_addr set"
  udp_sent :: "(udp_addr \<times> bytes) list"
  events :: "event list"

definition emit :: "event \<Rightarrow> server \<Rightarrow> server" where
  "emit e st = st\<lparr>events := events st @ [e]\<rparr>"

text \<open>\<^verbatim>\<open>conn.sendall(data)\<close>; \<open>None\<close> stands for the exception.\<close>

definition sendall :: "server \<Rightarrow> conn \<Rightarrow> bytes \<Rightarrow> server option" where
  "sendall st conn data =
     (if conn \<in> unreachable st \<or> conn \<in> closed st then None
      else Some (st\<lparr>sent := sent st @ [(conn, data)]\<rparr>))"

definition close :: "server \<Rightarrow> conn \<Rightarrow> server" where
  "close st conn = st\<lparr>closed := insert conn (closed st)\<rparr>"

text \<open>
  \<open>broadcast\<close> (lines 68-74) with its loop over \<^verbatim>\<open>list(self.clients.keys())\<close>, and
  \<open>remove_client\<close> (lines 76-93).  Each takes the lock for its whole body and calls the
  other inside it.
\<close>

function broadcast :: "server \<Rightarrow> bytes \<Rightarrow> conn option \<Rightarrow> outcome \<times> server"
  and broadcast_loop :: "server \<Rightarrow> bytes \<Rightarrow> conn option \<Rightarrow> conn list \<Rightarrow> outcome \<times> server"
  and remove_client :: "server \<Rightarrow> conn \<Rightarrow> outcome \<times> server"
where
  "broadcast st message sender_conn =
     (if lock_held st then (Blocked, st)
      else (case broadcast_loop (st\<lparr>lock_held := True\<rparr>) message sender_conn
                   (map fst (clients st)) of
              (Blocked, st') \<Rightarrow> (Blocked, st')
            | (out, st') \<Rightarrow> (out, st'\<lparr>lock_held := False\<rparr>)))"
| "broadcast_loop st message sender_conn [] = (Returned, st)"
| "broadcast_loop st message sender_conn (conn # conns) =
     (if Some conn \<noteq> sender_conn
      then (case sendall st conn message of
              Some st' \<Rightarrow> broadcast_loop st' message sender_conn conns
            | None \<Rightarrow>
                (case remove_client st conn of
                   (Returned, st') \<Rightarrow> broadcast_loop st' message sender_conn conns
                 | (out, st') \<Rightarrow> (out, st')))
      else broadcast_loop st message sender_conn conns)"
| "remove_client st conn =
     (if lock_held st then (Blocked, st)
      else (case map_of (clients st) conn of
              None \<Rightarrow> (Returned, st)
            | Some (username, _) \<Rightarrow>
                (let st1 = st\<lparr>lock_held := True,
                              clients := AList.delete conn (clients st),
                              username_to_conn := AList.delete username (username_to_conn st)\<rparr>;
                     st2 = emit (Log (''Client '' @ [CHR 0x27] @ username @ [CHR 0x27] @ '' disconnected.'')) st1;
                     st3 = emit (Participants (map fst (username_to_conn st2))) st2
                 in case broadcast st3 (''USER_LEFT:'' @ username @ [newline]) None of
                      (Returned, st4) \<Rightarrow>
                        (case broadcast st4
                                (''SYSTEM:'' @ username @ '' has left the chat.'' @ [newline]) None of
                           (Returned, st5) \<Rightarrow> (Returned, (close st5 conn)\<lparr>lock_held := False\<rparr>)
                         | (Blocked, st5) \<Rightarrow> (Blocked, st5)
                         | (out, st5) \<Rightarrow> (out, st5\<lparr>lock_held := False\<rparr>))
                    | (Blocked, st4) \<Rightarrow> (Blocked, st4)
                    | (out, st4) \<Rightarrow> (out, st4\<lparr>lock_held := False\<rparr>))))"
  by pat_completeness auto

lemma broadcast_held_dom:
  "broadcast_broadcast_loop_remove_client_dom (Inl (st, message, sender_conn)) \<Longrightarrow> lock_held st
   \<Longrightarrow> broadcast st message sender_conn = (Blocked, st)"
  by (simp add: broadcast.psimps)

termination broadcast
  by (relation "measure (\<lambda>x. case x of
            Inl (st, _, _) \<Rightarrow> (if lock_held st then 0 else length (clients st) + 3)
          | Inr (Inl (_, _, _, conns)) \<Rightarrow> length conns + 2
          | Inr (Inr (st, _)) \<Rightarrow> (if lock_held st then 0 else 1))")
     (auto simp: emit_def broadcast_held_dom)

declare broadcast.simps [simp del] remove_client.simps [simp del]






definition initial_server :: server where
  "initial_server =
     \<lparr>clients = [], username_to_conn = [], lock_held = False, running = True,
      unreachable = {}, closed = {}, sent = [], udp_unreachable = {}, udp_sent = [],
      events = []\<rparr>"



section \<open>The UDP media relay (ConferenceServer.udp_listener)\<close>

text \<open>
  \<^verbatim>\<open>sock.sendto(data, addr)\<close> raises for the addresses in \<open>udp_unreachable\<close>.  The
  listener is given what \<^verbatim>\<open>recvfrom\<close> yields: a datagram with its source address, or
  an exception.
\<close>

definition sendto :: "server \<Rightarrow> bytes \<Rightarrow> udp_addr \<Rightarrow> server option" where
  "sendto st data addr =
     (if addr \<in> udp_unreachable st then None
      else Some (st\<lparr>udp_sent := udp_sent st @ [(addr, data)]\<rparr>))"

datatype udp_input = Datagram bytes udp_addr | RecvError

datatype listener_status = Listening | Terminated | Deadlocked

text \<open>
  The \<^verbatim>\<open>for\<close> loop over \<^verbatim>\<open>self.clients.items()\<close>; the flag tells whether it ran to
  its end (\<open>False\<close>: a \<^verbatim>\<open>sendto\<close> raised).
\<close>

fun udp_forward ::
  "server \<Rightarrow> bytes \<Rightarrow> udp_addr \<Rightarrow> (conn \<times> (str \<times> udp_addr)) list \<Rightarrow> bool \<times> server" where
  "udp_forward st data addr [] = (True, st)"
| "udp_forward st data addr ((_, (_, client_udp_addr)) # items) =
     (if client_udp_addr \<noteq> addr
      then (case sendto st data client_udp_addr of
              None \<Rightarrow> (False, st)
            | Some st' \<Rightarrow> udp_forward st' data addr items)
      else udp_forward st data addr items)"

fun udp_listener :: "server \<Rightarrow> udp_input list \<Rightarrow> listener_status \<times> server" where
  "udp_listener st [] = (if running st then (Listening, st) else (Terminated, st))"
| "udp_listener st (inp # inps) =
     (if \<not> running st then (Terminated, st)
      else (case inp of
              RecvError \<Rightarrow> (Terminated, st)
            | Datagram data addr \<Rightarrow>
                if lock_held st then (Deadlocked, st)
                else (case udp_forward (st\<lparr>lock_held := True\<rparr>) data addr (clients st) of
                        (True, st') \<Rightarrow> udp_listener (st'\<lparr>lock_held := False\<rparr>) inps
                      | (False, st') \<Rightarrow>
                          if running st' then (Terminated, st'\<lparr>lock_held := False\<rparr>)
                          else udp_listener (st'\<lparr>lock_held := False\<rparr>) inps)))"



text \<open>
  The addresses a datagram from \<open>addr\<close> is due to, in the order of the dictionary, and
  those among them that come before the first one on which \<^verbatim>\<open>sendto\<close> raises.
\<close>

definition udp_destinations :: "server \<Rightarrow> udp_addr \<Rightarrow> udp_addr list" where
  "udp_destinations st addr = filter (\<lambda>a. a \<noteq> addr) (map (\<lambda>(c, u, a). a) (clients st))"

definition udp_served :: "server \<Rightarrow> udp_addr \<Rightarrow> udp_addr list" where
  "udp_served st addr = takeWhile (\<lambda>a. a \<notin> udp_unreachable st) (udp_destinations st addr)"

text \<open>
  Three sessions; bob has announced a UDP port outside the valid range, which
  \<^verbatim>\<open>sendto\<close> rejects.
\<close>

definition udp_example :: server where
  "udp_example =
     initial_server
       \<lparr>clients := [(1, (''alice'', (''10.0.0.1'', 6000))), (2, (''bob'', (''10.0.0.2'', 99999))),
                    (3, (''carol'', (''10.0.0.3'', 6002)))],
        username_to_conn := [(''alice'', 1), (''bob'', 2), (''carol'', 3)],
        udp_unreachable := {(''10.0.0.2'', 99999)}\<rparr>"

section \<open>The file-transfer relay (ConferenceServer.handle_file_transfer)\<close>















section \<open>The client's file consumer (FileReceiverWorker)\<close>

text \<open>
  The worker counts the bytes written against \<^verbatim>\<open>filesize\<close>; \<open>finished\<close> holds the
  message of \<^verbatim>\<open>finish\<close>, which also calls \<^verbatim>\<open>stop_file_receive_mode\<close>.  The
  \<^verbatim>\<open>progress\<close> signal and the errors of the file system are left out.
\<close>

record file_receiver =
  filesize :: int
  bytes_received :: int
  written :: bytes
  finished :: "str option"

definition write_chunk :: "file_receiver \<Rightarrow> bytes \<Rightarrow> file_receiver" where
  "write_chunk w chunk =
     (let bytes_to_write = min (int (length chunk)) (filesize w - bytes_received w);
          w' = w\<lparr>written := written w @ slice_to chunk bytes_to_write,
                 bytes_received := bytes_received w + bytes_to_write\<rparr>
      in if filesize w' \<le> bytes_received w'
         then w'\<lparr>finished := Some ''File received successfully!''\<rparr>
         else w')"

text \<open>
  The worker connected to \<^verbatim>\<open>file_data_received\<close>: it is handed the chunks of the
  signal, in order, until it has finished.
\<close>

fun deliver :: "file_receiver \<Rightarrow> signal list \<Rightarrow> file_receiver" where
  "deliver w [] = w"
| "deliver w (FileDataReceived chunk # ss) =
     (if finished w = None then deliver (write_chunk w chunk) ss else deliver w ss)"
| "deliver w (s # ss) = deliver w ss"

definition new_file_receiver :: "int \<Rightarrow> file_receiver" where
  "new_file_receiver n = \<lparr>filesize = n, bytes_received = 0, written = [], finished = None\<rparr>"

section \<open>Demultiplexer: chunk boundaries\<close>

subsection \<open>Partition and slices under appended bytes\<close>







subsection \<open>Server: one pass of the parser under appended bytes\<close>

















subsection \<open>Client\<close>























subsection \<open>Claims on the demultiplexer\<close>

lemma decode_Some_eq: "decode b = Some s \<Longrightarrow> s = b"
proof (induction b arbitrary: s rule: decode.induct)
  case 1
  then show ?case by simp
next
  case (2 c cs)
  obtain ok n where u: "utf8_seq (c # cs) = (ok, n)" by (cases "utf8_seq (c # cs)")
  with "2.prems" have ok: ok by (simp split: if_splits)
  with "2.prems" u obtain s' where s': "decode (drop n (c # cs)) = Some s'"
    "s = take n (c # cs) @ s'"
    by auto
  from "2.IH" [OF u [symmetric] ok s'(1)] s'(2) show ?case by simp
qed
















section \<open>Quality estimator: verified properties\<close>

lemma round_double_zero: "round_double 0 = Some 0"
  by (simp add: round_double_def)

lemma reported_loss_no_loss:
  "0 < total stats \<Longrightarrow> lost stats = 0 \<Longrightarrow> reported_loss stats = Some 0"
  by (simp add: reported_loss_def loss_pct_def py_truediv_def float_mul_def
      round_double_zero int_of_float_def)

lemma loss_two_of_five: "float_mul (the (py_truediv 2 5)) 100 = Some 40"
  by code_simp

lemma py_truediv_two_five: "py_truediv 2 5 \<noteq> None"
  by code_simp

lemma reported_loss_two_of_five:
  "lost stats = 2 \<Longrightarrow> total stats = 5 \<Longrightarrow> reported_loss stats = Some 40"
  using loss_two_of_five py_truediv_two_five
  by (auto simp: reported_loss_def loss_pct_def int_of_float_def split: option.splits)

lemma video_packet_known:
  "metrics username = Some stats \<Longrightarrow>
   video_packet metrics username seq_num t =
     (metrics(username \<mapsto> update_stats stats seq_num t),
      reported_loss (update_stats stats seq_num t))"
  by (simp add: video_packet_def ensure_peer_def Let_def)

lemma video_packet_new:
  "metrics username = None \<Longrightarrow>
   video_packet metrics username seq_num t =
     (metrics(username \<mapsto> update_stats (new_peer_stats seq_num) seq_num t),
      reported_loss (update_stats (new_peer_stats seq_num) seq_num t))"
  by (simp add: video_packet_def ensure_peer_def Let_def)

text \<open>
  C10.  For every initial sequence number \<open>s\<close>, the first video packet of a username
  that has no metrics yet creates the entry with \<open>last_seq = s - 1\<close>; the packet adds
  nothing to \<open>lost\<close>, and the loss percentage reported after this one packet is 0.
\<close>

theorem first_packet_no_loss:
  assumes "metrics username = None"
  shows "ensure_peer metrics username s username
           = Some \<lparr>last_seq = s - 1, lost = 0, total = 0, arrivals = []\<rparr>
       \<and> map_option lost (fst (video_packet metrics username s t) username) = Some 0
       \<and> map_option total (fst (video_packet metrics username s t) username) = Some 1
       \<and> map_option last_seq (fst (video_packet metrics username s t) username) = Some s
       \<and> snd (video_packet metrics username s t) = Some 0"
proof -
  let ?st = "update_stats (new_peer_stats s) s t"
  have st: "lost ?st = 0" "total ?st = 1" "last_seq ?st = s"
    by (simp_all add: update_stats_def new_peer_stats_def Let_def)
  have "reported_loss ?st = Some 0"
    by (rule reported_loss_no_loss) (simp_all add: st)
  with assms st show ?thesis
    by (simp add: video_packet_new ensure_peer_def new_peer_stats_def)
qed

theorem first_packet_no_loss_witness:
  "ensure_peer Map.empty ''bob'' 65535 ''bob''
     = Some \<lparr>last_seq = 65534, lost = 0, total = 0, arrivals = []\<rparr>
   \<and> map_option lost (fst (video_packet Map.empty ''bob'' 65535 0) ''bob'') = Some 0
   \<and> map_option total (fst (video_packet Map.empty ''bob'' 65535 0) ''bob'') = Some 1
   \<and> map_option last_seq (fst (video_packet Map.empty ''bob'' 65535 0) ''bob'') = Some 65535
   \<and> snd (video_packet Map.empty ''bob'' 65535 0) = Some 0"
  using first_packet_no_loss [of Map.empty "''bob''" 65535 0] by simp

lemma loss_two_of_four: "float_mul (the (py_truediv 2 4)) 100 = Some 50"
  by code_simp

lemma py_truediv_two_four: "py_truediv 2 4 \<noteq> None"
  by code_simp

lemma reported_loss_two_of_four:
  "lost stats = 2 \<Longrightarrow> total stats = 4 \<Longrightarrow> reported_loss stats = Some 50"
  using loss_two_of_four py_truediv_two_four
  by (auto simp: reported_loss_def loss_pct_def int_of_float_def split: option.splits)

lemma video_packet_entry:
  "fst (video_packet metrics username seq_num t) username =
     Some (update_stats (case metrics username of None \<Rightarrow> new_peer_stats seq_num | Some st \<Rightarrow> st)
             seq_num t)"
  by (cases "metrics username") (simp_all add: video_packet_new video_packet_known)

lemma update_stats_fields:
  "last_seq (update_stats st seq_num t) = seq_num"
  "lost (update_stats st seq_num t) = lost st + max 0 (seq_num - last_seq st - 1)"
  "total (update_stats st seq_num t) = total st + 1"
  by (simp_all add: update_stats_def Let_def)

text \<open>
  C9.  Starting without metrics for \<open>u\<close>, video packets with the sequence numbers
  0, 1, 2, 5, 6 leave \<open>lost = 2\<close> and \<open>total = 5\<close>, and the loss percentage
  reported with the last packet is 40.  Every packet adds
  \<open>max 0 (seq - last_seq - 1)\<close> to \<open>lost\<close>, adds 1 to \<open>total\<close> and sets
  \<open>last_seq\<close> to \<open>seq\<close>, where a username without an entry starts from
  \<open>new_peer_stats seq\<close>.
\<close>

theorem loss_of_0_1_2_5_6:
  "(let run = video_packets Map.empty [(u, 0, t0), (u, 1, t1), (u, 2, t2), (u, 5, t3), (u, 6, t4)]
    in map_option lost (fst run u) = Some 2
     \<and> map_option total (fst run u) = Some 5
     \<and> map_option last_seq (fst run u) = Some 6
     \<and> snd run = [Some 0, Some 0, Some 0, Some 50, Some 40])
   \<and> (let st = (case metrics u of None \<Rightarrow> new_peer_stats seq | Some st \<Rightarrow> st);
          st' = fst (video_packet metrics u seq t) u
      in map_option lost st' = Some (lost st + max 0 (seq - last_seq st - 1))
       \<and> map_option total st' = Some (total st + 1)
       \<and> map_option last_seq st' = Some seq)"
proof -
  have run: "video_packets Map.empty [(u, 0, t0), (u, 1, t1), (u, 2, t2), (u, 5, t3), (u, 6, t4)]
      = (Map.empty(u \<mapsto> \<lparr>last_seq = 6, lost = 2, total = 5,
                 arrivals = [t0, t1, t2, t3, t4]\<rparr>), [Some 0, Some 0, Some 0, Some 50, Some 40])"
    by (simp add: video_packet_new video_packet_known update_stats_def new_peer_stats_def
        deque_append_def JITTER_BUFFER_SIZE_def reported_loss_no_loss
        reported_loss_two_of_four reported_loss_two_of_five)
  show ?thesis
    unfolding run by (simp add: video_packet_entry update_stats_fields Let_def)
qed

section \<open>Connection registry: verified properties\<close>

subsection \<open>The lock\<close>


lemma broadcast_held: "lock_held st \<Longrightarrow> broadcast st message sender_conn = (Blocked, st)"
  by (simp add: broadcast.simps)














subsection \<open>The registry invariant\<close>










subsection \<open>Registration\<close>












subsection \<open>Counting the sessions\<close>


subsection \<open>Joins that all succeed\<close>













section \<open>UDP media relay: verified properties\<close>

lemma udp_forward_eq:
  "udp_forward st data addr items =
     (let dests = filter (\<lambda>a. a \<noteq> addr) (map (\<lambda>(c, u, a). a) items);
          served = takeWhile (\<lambda>a. a \<notin> udp_unreachable st) dests
      in (served = dests, st\<lparr>udp_sent := udp_sent st @ map (\<lambda>a. (a, data)) served\<rparr>))"
proof (induction items arbitrary: st)
  case Nil
  then show ?case by simp
next
  case (Cons item items)
  obtain c u a where item: "item = (c, u, a)" by (cases item)
  show ?case
  proof (cases "a \<noteq> addr")
    case False
    with Cons item show ?thesis by simp
  next
    case True
    show ?thesis
    proof (cases "a \<in> udp_unreachable st")
      case unreachable: True
      with True item show ?thesis by (simp add: sendto_def)
    next
      case False
      let ?st' = "st\<lparr>udp_sent := udp_sent st @ [(a, data)]\<rparr>"
      have s: "sendto st data a = Some ?st'" using False by (simp add: sendto_def)
      have u: "udp_unreachable ?st' = udp_unreachable st" by simp
      show ?thesis
        using True False item s Cons.IH [of ?st']
        by (simp add: Let_def u)
    qed
  qed
qed

text \<open>
  C7 (as the code has it).  With the server running and the lock free, a datagram from
  \<open>addr\<close> is sent to the other sessions' addresses in the order of the dictionary.  When
  no \<^verbatim>\<open>sendto\<close> raises, all of them receive it and the loop goes on to the next
  datagram.  When one raises, the addresses before it have received the datagram, the
  ones after it do not, and the receive loop ends.
\<close>

theorem udp_relay_ends_at_failure:
  assumes "running st" and "\<not> lock_held st"
  shows "(udp_served st addr = udp_destinations st addr \<longrightarrow>
            udp_listener st (Datagram data addr # inps)
              = udp_listener
                  (st\<lparr>udp_sent := udp_sent st @ map (\<lambda>a. (a, data)) (udp_destinations st addr)\<rparr>)
                  inps)
       \<and> (udp_served st addr \<noteq> udp_destinations st addr \<longrightarrow>
            udp_listener st (Datagram data addr # inps)
              = (Terminated,
                 st\<lparr>udp_sent := udp_sent st @ map (\<lambda>a. (a, data)) (udp_served st addr)\<rparr>))"
proof -
  have f: "udp_forward (st\<lparr>lock_held := True\<rparr>) data addr (clients st) =
      (udp_served st addr = udp_destinations st addr,
       st\<lparr>lock_held := True,
          udp_sent := udp_sent st @ map (\<lambda>a. (a, data)) (udp_served st addr)\<rparr>)"
    by (simp add: udp_forward_eq udp_served_def udp_destinations_def Let_def)
  show ?thesis
  proof (intro conjI impI)
    assume e: "udp_served st addr = udp_destinations st addr"
    have r: "st\<lparr>lock_held := True,
          udp_sent := udp_sent st @ map (\<lambda>a. (a, data)) (udp_destinations st addr),
          lock_held := False\<rparr>
        = st\<lparr>udp_sent := udp_sent st @ map (\<lambda>a. (a, data)) (udp_destinations st addr)\<rparr>"
      using assms(2) by simp
    show "udp_listener st (Datagram data addr # inps)
        = udp_listener
            (st\<lparr>udp_sent := udp_sent st @ map (\<lambda>a. (a, data)) (udp_destinations st addr)\<rparr>)
            inps"
      using assms e by (simp add: f r)
  next
    assume e: "udp_served st addr \<noteq> udp_destinations st addr"
    have r: "st\<lparr>lock_held := True,
          udp_sent := udp_sent st @ map (\<lambda>a. (a, data)) (udp_served st addr),
          lock_held := False\<rparr>
        = st\<lparr>udp_sent := udp_sent st @ map (\<lambda>a. (a, data)) (udp_served st addr)\<rparr>"
      using assms(2) by simp
    show "udp_listener st (Datagram data addr # inps)
        = (Terminated,
           st\<lparr>udp_sent := udp_sent st @ map (\<lambda>a. (a, data)) (udp_served st addr)\<rparr>)"
      using assms e by (simp add: f r)
  qed
qed

theorem udp_relay_ends_at_failure_witness:
  "running udp_example \<and> \<not> lock_held udp_example
   \<and> udp_served udp_example (''10.0.0.2'', 99999) = udp_destinations udp_example (''10.0.0.2'', 99999)
   \<and> udp_listener udp_example [Datagram ''a:bob:x'' (''10.0.0.2'', 99999)]
       = (Listening,
          udp_example\<lparr>udp_sent := [((''10.0.0.1'', 6000), ''a:bob:x''),
                                    ((''10.0.0.3'', 6002), ''a:bob:x'')]\<rparr>)
   \<and> udp_served udp_example (''10.0.0.3'', 6002) \<noteq> udp_destinations udp_example (''10.0.0.3'', 6002)
   \<and> udp_listener udp_example
        [Datagram ''a:carol:x'' (''10.0.0.3'', 6002), Datagram ''a:carol:y'' (''10.0.0.3'', 6002)]
       = (Terminated, udp_example\<lparr>udp_sent := [((''10.0.0.1'', 6000), ''a:carol:x'')]\<rparr>)"
proof -
  have a: "running udp_example" "\<not> lock_held udp_example"
    by (simp_all add: udp_example_def initial_server_def)
  have d1: "udp_destinations udp_example (''10.0.0.2'', 99999)
      = [(''10.0.0.1'', 6000), (''10.0.0.3'', 6002)]"
    and s1: "udp_served udp_example (''10.0.0.2'', 99999)
      = [(''10.0.0.1'', 6000), (''10.0.0.3'', 6002)]"
    and d2: "udp_destinations udp_example (''10.0.0.3'', 6002)
      = [(''10.0.0.1'', 6000), (''10.0.0.2'', 99999)]"
    and s2: "udp_served udp_example (''10.0.0.3'', 6002) = [(''10.0.0.1'', 6000)]"
    by (simp_all add: udp_served_def udp_destinations_def udp_example_def initial_server_def)
  note t1 = udp_relay_ends_at_failure [OF a, where addr = "(''10.0.0.2'', 99999)"
      and data = "''a:bob:x''" and inps = "[]"]
  note t2 = udp_relay_ends_at_failure [OF a, where addr = "(''10.0.0.3'', 6002)"
      and data = "''a:carol:x''" and inps = "[Datagram ''a:carol:y'' (''10.0.0.3'', 6002)]"]
  have e1: "udp_served udp_example (''10.0.0.2'', 99999)
      = udp_destinations udp_example (''10.0.0.2'', 99999)"
    by (simp only: d1 s1)
  have e2: "udp_served udp_example (''10.0.0.3'', 6002)
      \<noteq> udp_destinations udp_example (''10.0.0.3'', 6002)"
    by (simp add: d2 s2)
  have u0: "udp_sent udp_example = []" by (simp add: udp_example_def initial_server_def)
  from t1 e1 have "udp_listener udp_example [Datagram ''a:bob:x'' (''10.0.0.2'', 99999)]
      = udp_listener
          (udp_example\<lparr>udp_sent := udp_sent udp_example
             @ map (\<lambda>a. (a, ''a:bob:x'')) (udp_destinations udp_example (''10.0.0.2'', 99999))\<rparr>) []"
    by blast
  then have r1: "udp_listener udp_example [Datagram ''a:bob:x'' (''10.0.0.2'', 99999)]
       = (Listening,
          udp_example\<lparr>udp_sent := [((''10.0.0.1'', 6000), ''a:bob:x''),
                                    ((''10.0.0.3'', 6002), ''a:bob:x'')]\<rparr>)"
    using a by (simp add: d1 u0)
  from t2 e2 have "udp_listener udp_example
        [Datagram ''a:carol:x'' (''10.0.0.3'', 6002), Datagram ''a:carol:y'' (''10.0.0.3'', 6002)]
      = (Terminated,
         udp_example\<lparr>udp_sent := udp_sent udp_example
           @ map (\<lambda>a. (a, ''a:carol:x'')) (udp_served udp_example (''10.0.0.3'', 6002))\<rparr>)"
    by blast
  then have r2: "udp_listener udp_example
        [Datagram ''a:carol:x'' (''10.0.0.3'', 6002), Datagram ''a:carol:y'' (''10.0.0.3'', 6002)]
       = (Terminated, udp_example\<lparr>udp_sent := [((''10.0.0.1'', 6000), ''a:carol:x'')]\<rparr>)"
    by (simp add: s2 u0)
  from a e1 r1 e2 r2 show ?thesis by blast
qed

text \<open>
  C7 as stated fails: alice's datagram is due to bob and carol; the \<^verbatim>\<open>sendto\<close> to bob
  raises, carol never receives the datagram, and the loop has ended before alice's
  second datagram, which nobody receives.
\<close>

theorem udp_failure_counterexample:
  "udp_destinations udp_example (''10.0.0.1'', 6000) = [(''10.0.0.2'', 99999), (''10.0.0.3'', 6002)]
   \<and> udp_listener udp_example
        [Datagram ''v:alice:1:x'' (''10.0.0.1'', 6000), Datagram ''v:alice:2:y'' (''10.0.0.1'', 6000)]
       = (Terminated, udp_example)
   \<and> udp_sent udp_example = []
   \<and> (''10.0.0.3'', 6002) \<notin> fst ` set (udp_sent (snd (udp_listener udp_example
        [Datagram ''v:alice:1:x'' (''10.0.0.1'', 6000),
         Datagram ''v:alice:2:y'' (''10.0.0.1'', 6000)])))"
proof -
  have 1: "udp_destinations udp_example (''10.0.0.1'', 6000)
      = [(''10.0.0.2'', 99999), (''10.0.0.3'', 6002)]"
    by (simp add: udp_destinations_def udp_example_def initial_server_def)
  have 2: "udp_listener udp_example
        [Datagram ''v:alice:1:x'' (''10.0.0.1'', 6000), Datagram ''v:alice:2:y'' (''10.0.0.1'', 6000)]
       = (Terminated, udp_example)"
    by (simp add: udp_example_def initial_server_def sendto_def)
  have 3: "udp_sent udp_example = []" by (simp add: udp_example_def initial_server_def)
  show ?thesis unfolding 2 using 1 3 by simp
qed

section \<open>File-transfer relay: verified properties\<close>















section \<open>Raw mode on the receiving client\<close>

text \<open>
  C6, evaluated at inputs on which the code departs from it.  The FILE_INCOMING line
  and the first bytes of the file arrive in one chunk.  The inner loop does not look
  at \<^verbatim>\<open>is_receiving_file\<close>: it goes on parsing the rest of the buffer.  A file whose
  12 bytes read \<^verbatim>\<open>CHAT:bob:hi\<close> and a newline is dispatched as a chat message and
  never reaches the consumer; of a 5-byte file whose first 3 bytes arrive with the
  line, these 3 bytes stay in the parser's buffer and the consumer is handed only what
  arrives later.
\<close>

theorem file_mode_keeps_parsing:
  "run initial_receiver
     [Recv (''FILE_INCOMING:bob:f.txt:12'' @ [newline] @ ''CHAT:bob:hi'' @ [newline])]
     = (Receiving,
        \<lparr>buffer = [], is_receiving_file = True,
           signals = [FileIncoming ''bob'' ''f.txt'' 12, MessageReceived ''CHAT:bob:hi'']\<rparr>)
   \<and> run initial_receiver
        [Recv (''FILE_INCOMING:bob:f.txt:5'' @ [newline] @ ''hel''), Recv ''lo'']
     = (Receiving,
        \<lparr>buffer = ''hel'', is_receiving_file = True,
           signals = [FileIncoming ''bob'' ''f.txt'' 5, FileDataReceived ''lo'']\<rparr>)
   \<and> deliver (new_file_receiver 5)
        (signals (snd (run initial_receiver
           [Recv (''FILE_INCOMING:bob:f.txt:5'' @ [newline] @ ''hel''), Recv ''lo''])))
     = \<lparr>filesize = 5, bytes_received = 2, written = ''lo'', finished = None\<rparr>"
  by code_simp

end
